theory Spec2Isabelle
  imports Main "HOL-Library.Word"
begin

unbundle bit_operations_syntax

section \<open>The register map of the CameraLink top-level device\<close>

text \<open>
  The source is \<^verbatim>\<open>python/surf/protocols/clink/_ClinkTop.py\<close>: the class
  \<^verbatim>\<open>ClinkTop\<close>, whose constructor assembles a tree of register fields and
  sub-devices, and three reset methods. The constructor is embedded as a function from
  its arguments to either an error or the device it built; every \<^verbatim>\<open>self.add\<close>
  is one step of explicit state passing on the device.
\<close>

subsection \<open>Values of the source\<close>

text \<open>The exceptions the modelled code can raise.\<close>

datatype error = IndexError | AttributeError | TypeError

text \<open>\<^verbatim>\<open>pr.Bool\<close>, the only value given for \<^verbatim>\<open>base\<close> in the source.\<close>

datatype base_model = pr_Bool

text \<open>\<^verbatim>\<open>pr.BaseCommand.toggle\<close>, the only value given for \<^verbatim>\<open>function\<close>.\<close>

datatype cmd_function = toggle_fn

text \<open>
  The keyword arguments of \<^verbatim>\<open>pr.RemoteVariable\<close> and \<^verbatim>\<open>pr.RemoteCommand\<close>
  as the source writes them. A keyword the call does not give is \<open>None\<close>; numbers
  are Python integers. The keyword \<^verbatim>\<open>function\<close> is the field \<open>func\<close>.
\<close>

record kwargs =
  name :: string
  description :: string
  offset :: int
  bitSize :: int
  bitOffset :: int
  base :: "base_model option"
  mode :: "string option"
  disp :: "string option"
  units :: "string option"
  pollInterval :: "int option"
  func :: "cmd_function option"

text \<open>
  A node of the tree. \<open>ClinkChannel nm off serial camType\<close> and
  \<open>ClockManager nm off type expand\<close> stand for the constructor calls of the two
  sub-device classes with exactly the arguments the source passes; their own register
  maps are built elsewhere and are opaque here.
\<close>

datatype ('s, 'c) node =
    RemoteVariable kwargs
  | RemoteCommand kwargs
  | ClinkChannel string int 's "'c option"
  | ClockManager string int string bool

record ('s, 'c) device =
  dev_name :: string
  dev_description :: string
  nodes :: "('s, 'c) node list"

subsection \<open>Python primitives\<close>

text \<open>\<^verbatim>\<open>xs[i]\<close>: a negative index counts from the end, an index out of range raises.\<close>

definition getitem :: "'a list \<Rightarrow> int \<Rightarrow> error + 'a" where
  "getitem xs i =
     (if 0 \<le> i \<and> i < int (length xs) then Inr (xs ! nat i)
      else if i < 0 \<and> - int (length xs) \<le> i then Inr (xs ! nat (int (length xs) + i))
      else Inl IndexError)"

text \<open>\<^verbatim>\<open>range(n)\<close>.\<close>

definition range_py :: "int \<Rightarrow> int list" where
  "range_py n = [0 .. n - 1]"

text \<open>The decimal numeral of an integer, as an f-string or \<^verbatim>\<open>{:d}\<close> prints it.\<close>

fun digits :: "nat \<Rightarrow> string" where
  "digits n =
     (if n < 10 then [''0123456789'' ! n]
      else digits (n div 10) @ [''0123456789'' ! (n mod 10)])"

declare digits.simps [simp del]

definition str_py :: "int \<Rightarrow> string" where
  "str_py i = (if i < 0 then CHR ''-'' # digits (nat (- i)) else digits (nat i))"

subsection \<open>Operations of the device framework\<close>

text \<open>
  \<^verbatim>\<open>pr.Device.__init__(name=..., description=...)\<close> starts with no nodes, and
  \<^verbatim>\<open>self.add(node)\<close> appends one node. Both belong to the framework; the
  further keyword arguments that the constructor forwards to it are not modelled.
\<close>

definition Device :: "string \<Rightarrow> string \<Rightarrow> ('s, 'c) device" where
  "Device nm descr = \<lparr>dev_name = nm, dev_description = descr, nodes = []\<rparr>"

definition add :: "('s, 'c) device \<Rightarrow> ('s, 'c) node \<Rightarrow> ('s, 'c) device" where
  "add self n = self\<lparr>nodes := nodes self @ [n]\<rparr>"

text \<open>
  Modelled from the spec: \<^verbatim>\<open>addRemoteVariables\<close> is a method of the framework and
  is not part of the source. The spec's field array is a field template replicated
  \<open>number\<close> times, with a fixed \<open>stride\<close> added to the byte offset per instance and
  instance names that carry the index.
\<close>

definition addRemoteVariables ::
  "('s, 'c) device \<Rightarrow> kwargs \<Rightarrow> int \<Rightarrow> int \<Rightarrow> ('s, 'c) device" where
  "addRemoteVariables self kw number stride =
     foldl (\<lambda>d i. add d (RemoteVariable
              (kw\<lparr>name := name kw @ ''['' @ str_py i @ '']'',
                  offset := offset kw + i * stride\<rparr>)))
       self (range_py number)"

subsection \<open>The constructor\<close>

text \<open>
  The section \<^verbatim>\<open>Variables\<close> of \<^verbatim>\<open>ClinkTop.__init__\<close>: sixteen single fields
  and three field arrays, added in the order of the source.
\<close>

definition variables :: "('s, 'c) device \<Rightarrow> ('s, 'c) device" where
  "variables self0 =
     (let
       self = add self0 (RemoteVariable
          \<lparr>name = ''ChanCount'', description = ''Supported channels'',
           offset = 0x00, bitSize = 4, bitOffset = 0x00,
           base = None, mode = Some ''RO'', disp = None, units = None,
           pollInterval = None, func = None\<rparr>);
       self = add self (RemoteCommand
          \<lparr>name = ''ResetPll'', description = ''Camera link channel PLL reset'',
           offset = 0x04, bitSize = 1, bitOffset = 0,
           base = None, mode = None, disp = None, units = None,
           pollInterval = None, func = Some toggle_fn\<rparr>);
       self = add self (RemoteCommand
          \<lparr>name = ''ResetFsm'', description = ''Camera link channel FSM reset'',
           offset = 0x04, bitSize = 1, bitOffset = 1,
           base = None, mode = None, disp = None, units = None,
           pollInterval = None, func = Some toggle_fn\<rparr>);
       self = add self (RemoteCommand
          \<lparr>name = ''CntRst'', description = '''',
           offset = 0x04, bitSize = 1, bitOffset = 2,
           base = None, mode = None, disp = None, units = None,
           pollInterval = None, func = Some toggle_fn\<rparr>);
       self = add self (RemoteVariable
          \<lparr>name = ''LinkLockedA'', description = ''Camera link channel locked status'',
           offset = 0x10, bitSize = 1, bitOffset = 0,
           base = Some pr_Bool, mode = Some ''RO'', disp = None, units = None,
           pollInterval = Some 1, func = None\<rparr>);
       self = add self (RemoteVariable
          \<lparr>name = ''LinkLockedB'', description = ''Camera link channel locked status'',
           offset = 0x10, bitSize = 1, bitOffset = 1,
           base = Some pr_Bool, mode = Some ''RO'', disp = None, units = None,
           pollInterval = Some 1, func = None\<rparr>);
       self = add self (RemoteVariable
          \<lparr>name = ''LinkLockedC'', description = ''Camera link channel locked status'',
           offset = 0x10, bitSize = 1, bitOffset = 2,
           base = Some pr_Bool, mode = Some ''RO'', disp = None, units = None,
           pollInterval = Some 1, func = None\<rparr>);
       self = add self (RemoteVariable
          \<lparr>name = ''LinkLockedCntA'', description = ''Camera link channel locked status counter'',
           offset = 0x10, bitSize = 8, bitOffset = 8,
           base = None, mode = Some ''RO'', disp = Some ''{}'', units = None,
           pollInterval = Some 1, func = None\<rparr>);
       self = add self (RemoteVariable
          \<lparr>name = ''LinkLockedCntB'', description = ''Camera link channel locked status counter'',
           offset = 0x10, bitSize = 8, bitOffset = 16,
           base = None, mode = Some ''RO'', disp = Some ''{}'', units = None,
           pollInterval = Some 1, func = None\<rparr>);
       self = add self (RemoteVariable
          \<lparr>name = ''LinkLockedCntC'', description = ''Camera link channel locked status counter'',
           offset = 0x10, bitSize = 8, bitOffset = 24,
           base = None, mode = Some ''RO'', disp = Some ''{}'', units = None,
           pollInterval = Some 1, func = None\<rparr>);
       self = add self (RemoteVariable
          \<lparr>name = ''ShiftCountA'', description = ''Shift count for channel'',
           offset = 0x14, bitSize = 3, bitOffset = 0,
           base = None, mode = Some ''RO'', disp = None, units = None,
           pollInterval = Some 1, func = None\<rparr>);
       self = add self (RemoteVariable
          \<lparr>name = ''ShiftCountB'', description = ''Shift count for channel'',
           offset = 0x14, bitSize = 3, bitOffset = 8,
           base = None, mode = Some ''RO'', disp = None, units = None,
           pollInterval = Some 1, func = None\<rparr>);
       self = add self (RemoteVariable
          \<lparr>name = ''ShiftCountC'', description = ''Shift count for channel'',
           offset = 0x14, bitSize = 3, bitOffset = 16,
           base = None, mode = Some ''RO'', disp = None, units = None,
           pollInterval = Some 1, func = None\<rparr>);
       self = add self (RemoteVariable
          \<lparr>name = ''DelayA'', description = ''Precision delay for channel A'',
           offset = 0x18, bitSize = 5, bitOffset = 0,
           base = None, mode = Some ''RO'', disp = None, units = None,
           pollInterval = Some 1, func = None\<rparr>);
       self = add self (RemoteVariable
          \<lparr>name = ''DelayB'', description = ''Precision delay for channel B'',
           offset = 0x18, bitSize = 5, bitOffset = 8,
           base = None, mode = Some ''RO'', disp = None, units = None,
           pollInterval = Some 1, func = None\<rparr>);
       self = add self (RemoteVariable
          \<lparr>name = ''DelayC'', description = ''Precision delay for channel C'',
           offset = 0x18, bitSize = 5, bitOffset = 16,
           base = None, mode = Some ''RO'', disp = None, units = None,
           pollInterval = Some 1, func = None\<rparr>);
       self = addRemoteVariables self
          \<lparr>name = ''ClkInFreq'', description = ''Clock Input Freq'',
           offset = 0x01C, bitSize = 32, bitOffset = 0,
           base = None, mode = Some ''RO'', disp = Some ''{:d}'', units = Some ''Hz'',
           pollInterval = Some 1, func = None\<rparr>
          3 4;
       self = addRemoteVariables self
          \<lparr>name = ''ClinkClkFreq'', description = ''CameraLink Clock Freq'',
           offset = 0x028, bitSize = 32, bitOffset = 0,
           base = None, mode = Some ''RO'', disp = Some ''{:d}'', units = Some ''Hz'',
           pollInterval = Some 1, func = None\<rparr>
          3 4;
       self = addRemoteVariables self
          \<lparr>name = ''ClinkClk7xFreq'', description = ''CameraLink Clock x 7 Freq'',
           offset = 0x034, bitSize = 32, bitOffset = 0,
           base = None, mode = Some ''RO'', disp = Some ''{:d}'', units = Some ''Hz'',
           pollInterval = Some 1, func = None\<rparr>
          3 4
      in self)"

text \<open>
  \<^verbatim>\<open>for i in range(2): if serial[i] is not None: self.add(cl.ClinkChannel(...))\<close>.
  Both \<^verbatim>\<open>serial[i]\<close> and \<^verbatim>\<open>camType[i]\<close> can raise; \<^verbatim>\<open>camType[i]\<close> is read
  only when \<^verbatim>\<open>serial[i]\<close> is not \<^verbatim>\<open>None\<close>, and is passed on as it is.
\<close>

fun channels_loop ::
  "('s, 'c) device \<Rightarrow> 's option list \<Rightarrow> 'c option list \<Rightarrow> int list \<Rightarrow> error + ('s, 'c) device"
where
  "channels_loop self serial camType [] = Inr self"
| "channels_loop self serial camType (i # rest) =
     (case getitem serial i of
        Inl e \<Rightarrow> Inl e
      | Inr None \<Rightarrow> channels_loop self serial camType rest
      | Inr (Some s) \<Rightarrow>
          (case getitem camType i of
             Inl e \<Rightarrow> Inl e
           | Inr c \<Rightarrow>
               channels_loop
                 (add self (ClinkChannel (''Ch['' @ str_py i @ '']'') (0x100 + (i * 0x100)) s c))
                 serial camType rest))"

text \<open>\<^verbatim>\<open>for i in range(3): self.add(xil.ClockManager(...))\<close>.\<close>

fun plls_loop :: "('s, 'c) device \<Rightarrow> int list \<Rightarrow> ('s, 'c) device" where
  "plls_loop self [] = self"
| "plls_loop self (i # rest) =
     plls_loop
       (add self (ClockManager (''Pll['' @ str_py i @ '']'') (0x1000 + (i * 0x1000)) ''MMCME2'' False))
       rest"

text \<open>The default values of the parameters of \<^verbatim>\<open>ClinkTop.__init__\<close>.\<close>

definition default_name :: string where
  "default_name = ''ClinkTop''"

definition default_description :: string where
  "default_description = ''CameraLink module''"

definition default_serial :: "'s option list" where
  "default_serial = [None, None]"

definition default_camType :: "'c option list" where
  "default_camType = [None, None]"

definition ClinkTop ::
  "string \<Rightarrow> string \<Rightarrow> 's option list \<Rightarrow> 'c option list \<Rightarrow> error + ('s, 'c) device" where
  "ClinkTop nm descr serial camType =
     (case channels_loop (variables (Device nm descr)) serial camType (range_py 2) of
        Inl e \<Rightarrow> Inl e
      | Inr self \<Rightarrow> Inr (plls_loop self (range_py 3)))"

subsection \<open>Views of the built tree\<close>

text \<open>The fields (variables and commands), the channel sub-devices and the clock managers.\<close>

fun field_of :: "('s, 'c) node \<Rightarrow> kwargs option" where
  "field_of (RemoteVariable kw) = Some kw"
| "field_of (RemoteCommand kw) = Some kw"
| "field_of _ = None"

definition fields_of :: "('s, 'c) device \<Rightarrow> kwargs list" where
  "fields_of d = List.map_filter field_of (nodes d)"

fun command_of :: "('s, 'c) node \<Rightarrow> kwargs option" where
  "command_of (RemoteCommand kw) = Some kw"
| "command_of _ = None"

definition commands :: "('s, 'c) device \<Rightarrow> kwargs list" where
  "commands d = List.map_filter command_of (nodes d)"

fun is_channel :: "('s, 'c) node \<Rightarrow> bool" where
  "is_channel (ClinkChannel nm off s c) = True"
| "is_channel _ = False"

fun is_pll :: "('s, 'c) node \<Rightarrow> bool" where
  "is_pll (ClockManager nm off ty ex) = True"
| "is_pll _ = False"

definition channels :: "('s, 'c) device \<Rightarrow> ('s, 'c) node list" where
  "channels d = filter is_channel (nodes d)"

definition plls :: "('s, 'c) device \<Rightarrow> ('s, 'c) node list" where
  "plls d = filter is_pll (nodes d)"

fun node_name :: "('s, 'c) node \<Rightarrow> string" where
  "node_name (RemoteVariable kw) = name kw"
| "node_name (RemoteCommand kw) = name kw"
| "node_name (ClinkChannel nm off s c) = nm"
| "node_name (ClockManager nm off ty ex) = nm"

fun node_offset :: "('s, 'c) node \<Rightarrow> int" where
  "node_offset (RemoteVariable kw) = offset kw"
| "node_offset (RemoteCommand kw) = offset kw"
| "node_offset (ClinkChannel nm off s c) = off"
| "node_offset (ClockManager nm off ty ex) = off"

text \<open>The channel sub-devices at one base offset.\<close>

definition channels_at :: "int \<Rightarrow> ('s, 'c) device \<Rightarrow> ('s, 'c) node list" where
  "channels_at off d = filter (\<lambda>n. node_offset n = off) (channels d)"

text \<open>The bit range \<open>[bitOffset, bitOffset + bitSize)\<close> of a field.\<close>

definition bit_range :: "kwargs \<Rightarrow> int set" where
  "bit_range kw = {bitOffset kw ..< bitOffset kw + bitSize kw}"

subsection \<open>The reset methods\<close>

text \<open>
  Modelled from the spec: the register access engine is not part of the source. Its
  state is the 32-bit word behind every byte offset, together with the list of field
  writes issued so far, each \<open>(offset, bitOffset, bitSize, value)\<close>. A field write
  replaces the bits of the field and leaves the other bits of the word alone (the
  bit-level write isolation the spec asks for); \<open>toggle\<close> writes 1 and then 0 to
  the same field.
\<close>

record engine =
  mem :: "int \<Rightarrow> 32 word"
  writes :: "(int \<times> int \<times> int \<times> int) list"

definition field_mask :: "kwargs \<Rightarrow> 32 word" where
  "field_mask kw = push_bit (nat (bitOffset kw)) (mask (nat (bitSize kw)))"

definition set_field :: "kwargs \<Rightarrow> int \<Rightarrow> engine \<Rightarrow> engine" where
  "set_field kw v st =
     st\<lparr>mem := (mem st)(offset kw :=
            (mem st (offset kw) AND NOT (field_mask kw))
              OR (push_bit (nat (bitOffset kw)) (word_of_int v) AND field_mask kw)),
        writes := writes st @ [(offset kw, bitOffset kw, bitSize kw, v)]\<rparr>"

definition get_field :: "kwargs \<Rightarrow> engine \<Rightarrow> 32 word" where
  "get_field kw st =
     take_bit (nat (bitSize kw)) (drop_bit (nat (bitOffset kw)) (mem st (offset kw)))"

definition toggle :: "kwargs \<Rightarrow> engine \<Rightarrow> engine" where
  "toggle cmd st = set_field cmd 0 (set_field cmd 1 st)"

text \<open>
  Modelled from the spec: attribute access and the call of a node are the framework's.
  \<^verbatim>\<open>self.CntRst()\<close> invokes the command-pulse field named \<^verbatim>\<open>CntRst\<close>: the node of
  that name is looked up among the nodes of the device and called, and calling a command
  runs its \<^verbatim>\<open>function\<close>. A device without such a node, a node that is no command and
  a command without a function do not occur in a tree built by this source; the first
  two are errors here and the last does nothing.
\<close>

definition getattr :: "('s, 'c) device \<Rightarrow> string \<Rightarrow> error + ('s, 'c) node" where
  "getattr self nm =
     (case find (\<lambda>n. node_name n = nm) (nodes self) of
        None \<Rightarrow> Inl AttributeError
      | Some n \<Rightarrow> Inr n)"

fun call :: "('s, 'c) node \<Rightarrow> engine \<Rightarrow> error + engine" where
  "call (RemoteCommand kw) st =
     (case func kw of None \<Rightarrow> Inr st | Some toggle_fn \<Rightarrow> Inr (toggle kw st))"
| "call _ st = Inl TypeError"

definition CntRst :: "('s, 'c) device \<Rightarrow> engine \<Rightarrow> error + engine" where
  "CntRst self st = (case getattr self ''CntRst'' of Inl e \<Rightarrow> Inl e | Inr n \<Rightarrow> call n st)"

definition hardReset :: "('s, 'c) device \<Rightarrow> engine \<Rightarrow> error + engine" where
  "hardReset self st = CntRst self st"

definition softReset :: "('s, 'c) device \<Rightarrow> engine \<Rightarrow> error + engine" where
  "softReset self st = CntRst self st"

definition countReset :: "('s, 'c) device \<Rightarrow> engine \<Rightarrow> error + engine" where
  "countReset self st = CntRst self st"

subsection \<open>The parts of a built tree\<close>

text \<open>
  What the section \<^verbatim>\<open>Variables\<close> and the clock-manager loop append to a device
  that has no nodes yet, and the fields among the former. They name the parts of the
  node list in the lemmas below.
\<close>

definition variable_nodes :: "('s, 'c) node list" where
  "variable_nodes = nodes (variables (Device [] []))"

definition pll_nodes :: "('s, 'c) node list" where
  "pll_nodes = nodes (plls_loop (Device [] []) (range_py 3))"

definition variable_fields :: "kwargs list" where
  "variable_fields = fields_of (variables (Device [] [] :: (unit, unit) device))"

definition variable_commands :: "kwargs list" where
  "variable_commands = commands (variables (Device [] [] :: (unit, unit) device))"

text \<open>The keyword arguments of the command \<^verbatim>\<open>CntRst\<close>, as in \<open>variables\<close>.\<close>

definition cntrst :: kwargs where
  "cntrst = \<lparr>name = ''CntRst'', description = '''',
           offset = 0x04, bitSize = 1, bitOffset = 2,
           base = None, mode = None, disp = None, units = None,
           pollInterval = None, func = Some toggle_fn\<rparr>"

section \<open>Auxiliary facts\<close>

lemma range_py_2: "range_py 2 = [0, 1]"
  by (simp add: range_py_def upto_rec1)

lemma range_py_3: "range_py 3 = [0, 1, 2]"
  by (simp add: range_py_def upto_rec1)

lemma str_py_digit: "str_py 0 = ''0''" "str_py 1 = ''1''" "str_py 2 = ''2''"
  by (simp_all add: str_py_def digits.simps)

lemma nodes_add: "nodes (add d n) = nodes d @ [n]"
  by (simp add: add_def)

lemma nodes_addRemoteVariables_3:
  "nodes (addRemoteVariables d kw 3 stride) =
     nodes d @ map (\<lambda>i. RemoteVariable (kw\<lparr>name := name kw @ ''['' @ str_py i @ '']'',
                  offset := offset kw + i * stride\<rparr>)) [0, 1, 2]"
  by (simp add: addRemoteVariables_def range_py_3 nodes_add)

lemmas build_simps =
  variables_def Let_def nodes_add nodes_addRemoteVariables_3 Device_def str_py_digit

lemma nodes_variables: "nodes (variables d) = nodes d @ variable_nodes"
  by (simp add: variable_nodes_def build_simps)

lemma nodes_plls_loop: "nodes (plls_loop d (range_py 3)) = nodes d @ pll_nodes"
  by (simp add: pll_nodes_def range_py_3 nodes_add Device_def)

lemma pll_nodes_eq:
  "pll_nodes = [ClockManager ''Pll[0]'' 0x1000 ''MMCME2'' False,
                ClockManager ''Pll[1]'' 0x2000 ''MMCME2'' False,
                ClockManager ''Pll[2]'' 0x3000 ''MMCME2'' False]"
  by (simp add: pll_nodes_def range_py_3 nodes_add Device_def str_py_digit)

lemma channels_loop_nodes:
  "channels_loop d serial camType is = Inr d' \<Longrightarrow>
     \<exists>cs. nodes d' = nodes d @ cs \<and> list_all is_channel cs"
proof (induction "is" arbitrary: d)
  case Nil
  then show ?case by simp
next
  case (Cons i rest)
  show ?case
  proof (cases "getitem serial i")
    case (Inl e)
    with Cons.prems show ?thesis by simp
  next
    case (Inr a)
    note sa = this
    show ?thesis
    proof (cases a)
      case None
      with sa Cons.prems have "channels_loop d serial camType rest = Inr d'" by simp
      then show ?thesis by (rule Cons.IH)
    next
      case (Some s)
      show ?thesis
      proof (cases "getitem camType i")
        case (Inl e)
        with sa Some Cons.prems show ?thesis by simp
      next
        case (Inr c)
        let ?n = "ClinkChannel (''Ch['' @ str_py i @ '']'') (0x100 + (i * 0x100)) s c"
        from sa Some Inr Cons.prems
        have "channels_loop (add d ?n) serial camType rest = Inr d'" by simp
        from Cons.IH [OF this] obtain cs
          where "nodes d' = nodes (add d ?n) @ cs" and "list_all is_channel cs" by blast
        then have "nodes d' = nodes d @ (?n # cs) \<and> list_all is_channel (?n # cs)"
          by (simp add: nodes_add)
        then show ?thesis by blast
      qed
    qed
  qed
qed

lemma ClinkTop_nodes:
  assumes "ClinkTop nm descr serial camType = Inr t"
  shows "\<exists>cs. nodes t = variable_nodes @ cs @ pll_nodes \<and> list_all is_channel cs"
proof -
  from assms obtain d where
    d: "channels_loop (variables (Device nm descr)) serial camType (range_py 2) = Inr d"
    and t: "t = plls_loop d (range_py 3)"
    by (auto simp: ClinkTop_def split: sum.splits)
  from channels_loop_nodes [OF d] obtain cs where
    "nodes d = nodes (variables (Device nm descr)) @ cs" and cs: "list_all is_channel cs"
    by blast
  then have "nodes d = variable_nodes @ cs"
    by (simp add: nodes_variables Device_def)
  with t cs show ?thesis
    by (auto simp: nodes_plls_loop)
qed

lemma map_filter_append: "List.map_filter f (xs @ ys) = List.map_filter f xs @ List.map_filter f ys"
  by (simp add: List.map_filter_def)

lemma field_of_channels: "list_all is_channel cs \<Longrightarrow> List.map_filter field_of cs = []"
proof (induction cs)
  case Nil
  show ?case by (simp add: List.map_filter_def)
next
  case (Cons n cs)
  then show ?case by (cases n) (simp_all add: List.map_filter_def)
qed

lemma command_of_channels: "list_all is_channel cs \<Longrightarrow> List.map_filter command_of cs = []"
proof (induction cs)
  case Nil
  show ?case by (simp add: List.map_filter_def)
next
  case (Cons n cs)
  then show ?case by (cases n) (simp_all add: List.map_filter_def)
qed

lemma is_pll_channels: "list_all is_channel cs \<Longrightarrow> filter is_pll cs = []"
proof (induction cs)
  case Nil
  show ?case by simp
next
  case (Cons n cs)
  then show ?case by (cases n) simp_all
qed

lemma variable_nodes_fields:
  "List.map_filter field_of (variable_nodes :: ('s, 'c) node list) = variable_fields"
  by (simp add: variable_nodes_def variable_fields_def fields_of_def build_simps List.map_filter_def)

lemma variable_nodes_plls: "filter is_pll (variable_nodes :: ('s, 'c) node list) = []"
  by (simp add: variable_nodes_def build_simps)

lemma variable_nodes_channels: "filter is_channel (variable_nodes :: ('s, 'c) node list) = []"
  by (simp add: variable_nodes_def build_simps)

lemma ClinkTop_fields:
  assumes "ClinkTop nm descr serial camType = Inr t"
  shows "fields_of t = variable_fields"
proof -
  from ClinkTop_nodes [OF assms] obtain cs where
    "nodes t = variable_nodes @ cs @ pll_nodes" and "list_all is_channel cs" by blast
  then show ?thesis
    by (simp add: fields_of_def map_filter_append field_of_channels variable_nodes_fields)
       (simp add: pll_nodes_eq List.map_filter_def)
qed

lemma ClinkTop_plls:
  assumes "ClinkTop nm descr serial camType = Inr t"
  shows "plls t = pll_nodes"
proof -
  from ClinkTop_nodes [OF assms] obtain cs where
    "nodes t = variable_nodes @ cs @ pll_nodes" and "list_all is_channel cs" by blast
  then show ?thesis
    by (simp add: plls_def is_pll_channels variable_nodes_plls) (simp add: pll_nodes_eq)
qed

lemmas variable_fields_eval =
  variable_fields_def fields_of_def build_simps List.map_filter_def

lemma getitem_pair: "getitem [a, b] 0 = Inr a" "getitem [a, b] 1 = Inr b"
  by (simp_all add: getitem_def)

lemma ClinkTop_two_slots:
  "\<exists>t. ClinkTop nm descr [a, b] [c, d] = Inr t \<and>
       nodes t = variable_nodes
         @ (case a of None \<Rightarrow> [] | Some s \<Rightarrow> [ClinkChannel ''Ch[0]'' 0x100 s c])
         @ (case b of None \<Rightarrow> [] | Some s \<Rightarrow> [ClinkChannel ''Ch[1]'' 0x200 s d])
         @ pll_nodes"
  by (cases a; cases b)
     (simp_all add: ClinkTop_def range_py_2 getitem_pair str_py_digit nodes_plls_loop
        nodes_add nodes_variables Device_def)

lemma length_2_eq: "length xs = 2 \<Longrightarrow> xs = [xs ! 0, xs ! 1]"
  by (cases xs; cases "tl xs") auto

lemma ClinkTop_total:
  assumes "length serial = 2" and "length camType = 2"
  shows "\<exists>t. ClinkTop nm descr serial camType = Inr t"
proof -
  obtain a b where s: "serial = [a, b]"
    using length_2_eq [OF assms(1)] by blast
  obtain c d where c: "camType = [c, d]"
    using length_2_eq [OF assms(2)] by blast
  from ClinkTop_two_slots [of nm descr a b c d] show ?thesis
    unfolding s c by blast
qed

lemma bit_range_disjoint:
  "bit_range f \<inter> bit_range g = {} \<longleftrightarrow>
     bitSize f \<le> 0 \<or> bitSize g \<le> 0 \<or>
     bitOffset f + bitSize f \<le> bitOffset g \<or> bitOffset g + bitSize g \<le> bitOffset f"
  by (auto simp: bit_range_def)

lemma variable_fields_widths:
  "\<forall>f\<in>set variable_fields. 0 \<le> bitOffset f \<and> 0 < bitSize f \<and> bitOffset f + bitSize f \<le> 32"
  by (simp add: variable_fields_eval)

lemma variable_fields_disjoint:
  "sorted_wrt (\<lambda>f g. offset f = offset g \<longrightarrow> bit_range f \<inter> bit_range g = {}) variable_fields"
  by (simp add: variable_fields_eval bit_range_disjoint)

lemma variable_nodes_commands:
  "List.map_filter command_of (variable_nodes :: ('s, 'c) node list) = variable_commands"
  by (simp add: variable_nodes_def variable_commands_def commands_def build_simps List.map_filter_def)

lemma ClinkTop_commands:
  assumes "ClinkTop nm descr serial camType = Inr t"
  shows "commands t = variable_commands"
proof -
  from ClinkTop_nodes [OF assms] obtain cs where
    "nodes t = variable_nodes @ cs @ pll_nodes" and "list_all is_channel cs" by blast
  then show ?thesis
    by (simp add: commands_def map_filter_append command_of_channels variable_nodes_commands)
       (simp add: pll_nodes_eq List.map_filter_def)
qed

lemmas variable_commands_eval =
  variable_commands_def commands_def build_simps List.map_filter_def

lemma writes_toggle:
  "writes (toggle c st) =
     writes st @ [(offset c, bitOffset c, bitSize c, 1), (offset c, bitOffset c, bitSize c, 0)]"
  by (simp add: toggle_def set_field_def)

lemma bit_mem_set_field:
  "bit (mem (set_field c v st) a) n =
     (if a = offset c \<and> nat (bitOffset c) \<le> n \<and> n < nat (bitOffset c) + nat (bitSize c) \<and> n < 32
      then bit (word_of_int v :: 32 word) (n - nat (bitOffset c))
      else bit (mem st a) n)"
  by (auto simp: set_field_def field_mask_def bit_simps dest: bit_imp_le_length)

lemma get_field_unchanged:
  assumes "\<forall>n. nat (bitOffset f) \<le> n \<and> n < nat (bitOffset f) + nat (bitSize f) \<longrightarrow>
             bit (mem st' (offset f)) n = bit (mem st (offset f)) n"
  shows "get_field f st' = get_field f st"
proof (rule bit_eqI)
  fix n
  show "bit (get_field f st') n = bit (get_field f st) n"
    using assms by (auto simp: get_field_def bit_simps)
qed

lemma find_append_Some: "find P xs = Some x \<Longrightarrow> find P (xs @ ys) = Some x"
  by (induction xs) (auto split: if_splits)

lemma find_CntRst:
  "find (\<lambda>n. node_name n = ''CntRst'') (variable_nodes :: ('s, 'c) node list)
     = Some (RemoteCommand cntrst)"
  by (simp add: variable_nodes_def build_simps cntrst_def)

lemma ClinkTop_CntRst:
  assumes "ClinkTop nm descr serial camType = Inr t"
  shows "CntRst t st = Inr (toggle cntrst st)"
proof -
  from ClinkTop_nodes [OF assms] obtain cs where
    "nodes t = variable_nodes @ cs @ pll_nodes" by blast
  then have "getattr t ''CntRst'' = Inr (RemoteCommand cntrst)"
    by (simp add: getattr_def find_append_Some [OF find_CntRst])
  then show ?thesis
    by (simp add: CntRst_def cntrst_def)
qed

lemma cntrst_in_commands: "cntrst \<in> set variable_commands"
  by (simp add: variable_commands_eval cntrst_def)

lemma other_fields_avoid_bit:
  "\<forall>f\<in>set variable_fields. name f \<noteq> ''CntRst'' \<longrightarrow>
     offset f \<noteq> 0x04 \<or> nat (bitOffset f) + nat (bitSize f) \<le> 2 \<or> 2 < nat (bitOffset f)"
  by (simp add: variable_fields_eval)

lemma bit_set_cntrst:
  "bit (mem (set_field cntrst v st) a) n =
     (if a = 0x04 \<and> n = 2 then bit (word_of_int v :: 32 word) 0 else bit (mem st a) n)"
  by (auto simp: bit_mem_set_field cntrst_def)

lemma ClinkTop_two_slots_channels:
  "\<exists>t. ClinkTop nm descr [a, b] [c, d] = Inr t \<and>
       channels t =
         (case a of None \<Rightarrow> [] | Some s \<Rightarrow> [ClinkChannel ''Ch[0]'' 0x100 s c])
         @ (case b of None \<Rightarrow> [] | Some s \<Rightarrow> [ClinkChannel ''Ch[1]'' 0x200 s d])"
proof -
  from ClinkTop_two_slots [of nm descr a b c d] obtain t where
    t: "ClinkTop nm descr [a, b] [c, d] = Inr t" and
    n: "nodes t = variable_nodes
         @ (case a of None \<Rightarrow> [] | Some s \<Rightarrow> [ClinkChannel ''Ch[0]'' 0x100 s c])
         @ (case b of None \<Rightarrow> [] | Some s \<Rightarrow> [ClinkChannel ''Ch[1]'' 0x200 s d])
         @ pll_nodes" by blast
  have "channels t =
         (case a of None \<Rightarrow> [] | Some s \<Rightarrow> [ClinkChannel ''Ch[0]'' 0x100 s c])
         @ (case b of None \<Rightarrow> [] | Some s \<Rightarrow> [ClinkChannel ''Ch[1]'' 0x200 s d])"
    unfolding channels_def n
    by (simp add: variable_nodes_channels pll_nodes_eq split: option.splits)
  with t show ?thesis by blast
qed

lemma ClinkTop_None_None:
  "\<exists>t. ClinkTop nm descr [None, None] camType = Inr t \<and> channels t = []"
  by (simp add: ClinkTop_def range_py_2 getitem_pair channels_def nodes_plls_loop nodes_variables
        variable_nodes_channels pll_nodes_eq Device_def)

lemma getitem_short: "length xs \<le> nat i \<Longrightarrow> 0 \<le> i \<Longrightarrow> getitem xs i = Inl IndexError"
  by (auto simp: getitem_def)

lemma getitem_take_2:
  assumes "2 \<le> length xs"
  shows "getitem (take 2 xs) 0 = getitem xs 0" and "getitem (take 2 xs) 1 = getitem xs 1"
  using assms by (auto simp: getitem_def)

lemma channels_loop_short:
  assumes "length serial < 2"
  shows "channels_loop d serial camType [0, 1] = Inl IndexError"
proof (cases serial)
  case Nil
  then show ?thesis by (simp add: getitem_def)
next
  case (Cons a rest)
  with assms have s: "serial = [a]" by simp
  have 1: "getitem [a] 1 = Inl IndexError" by (simp add: getitem_def)
  have 0: "getitem [a] 0 = Inr a" by (simp add: getitem_def)
  show ?thesis
  proof (cases a)
    case None
    with s 0 1 show ?thesis by simp
  next
    case (Some x)
    show ?thesis
    proof (cases "getitem camType 0")
      case (Inl e)
      then have "e = IndexError" by (auto simp: getitem_def split: if_splits)
      with Inl s 0 Some show ?thesis by simp
    next
      case (Inr c)
      with s 0 1 Some show ?thesis by simp
    qed
  qed
qed

lemma channels_loop_take_2:
  assumes "2 \<le> length serial" and "2 \<le> length camType"
  shows "set is \<subseteq> {0, 1} \<Longrightarrow>
     channels_loop d (take 2 serial) (take 2 camType) is = channels_loop d serial camType is"
proof (induction "is" arbitrary: d)
  case Nil
  show ?case by simp
next
  case (Cons i rest)
  from Cons.prems have i: "i = 0 \<or> i = 1" and rest: "set rest \<subseteq> {0, 1}" by auto
  from i have s: "getitem (take 2 serial) i = getitem serial i"
    using getitem_take_2 [OF assms(1)] by auto
  from i have c: "getitem (take 2 camType) i = getitem camType i"
    using getitem_take_2 [OF assms(2)] by auto
  show ?case
    by (simp add: s c Cons.IH [OF rest] split: sum.splits option.splits)
qed

section \<open>The claims\<close>

text \<open>
  C5. Whatever the channel slots hold, a tree that the constructor builds contains
  exactly three clock-manager sub-devices, \<^verbatim>\<open>Pll[0]\<close>, \<^verbatim>\<open>Pll[1]\<close> and \<^verbatim>\<open>Pll[2]\<close>,
  at the base offsets 0x1000, 0x2000 and 0x3000, each of the fixed type \<^verbatim>\<open>MMCME2\<close>.
\<close>

theorem clock_managers:
  assumes "ClinkTop nm descr serial camType = Inr t"
  shows "plls t = [ClockManager ''Pll[0]'' 0x1000 ''MMCME2'' False,
                   ClockManager ''Pll[1]'' 0x2000 ''MMCME2'' False,
                   ClockManager ''Pll[2]'' 0x3000 ''MMCME2'' False]"
  using ClinkTop_plls [OF assms] by (simp add: pll_nodes_eq)

theorem clock_managers_witness:
  "\<exists>t. ClinkTop default_name default_description [Some (1::nat), None] [Some (2::nat), None] = Inr t
     \<and> plls t = [ClockManager ''Pll[0]'' 0x1000 ''MMCME2'' False,
                   ClockManager ''Pll[1]'' 0x2000 ''MMCME2'' False,
                   ClockManager ''Pll[2]'' 0x3000 ''MMCME2'' False]"
proof -
  obtain t where
    t: "ClinkTop default_name default_description [Some (1::nat), None] [Some (2::nat), None] = Inr t"
    using ClinkTop_total [of "[Some (1::nat), None]" "[Some (2::nat), None]"] by auto
  from clock_managers [OF t] t show ?thesis by simp
qed

text \<open>
  C3. In a built tree every field lies within the 32-bit register word
  (\<open>bitOffset + bitSize \<le> 32\<close>), and two distinct fields at the same byte offset
  have disjoint bit ranges; at offset 0x10 the fields are three 1-bit fields at bits
  0, 1, 2 and three 8-bit fields at bits 8, 16, 24.
\<close>

theorem fields_within_word_and_disjoint:
  assumes "ClinkTop nm descr serial camType = Inr t"
  shows "(\<forall>f\<in>set (fields_of t). 0 \<le> bitOffset f \<and> 0 < bitSize f \<and> bitOffset f + bitSize f \<le> 32)
       \<and> (\<forall>i j. i < j \<and> j < length (fields_of t)
              \<and> offset (fields_of t ! i) = offset (fields_of t ! j)
            \<longrightarrow> bit_range (fields_of t ! i) \<inter> bit_range (fields_of t ! j) = {})
       \<and> map (\<lambda>f. (bitOffset f, bitSize f)) (filter (\<lambda>f. offset f = 0x10) (fields_of t))
           = [(0, 1), (1, 1), (2, 1), (8, 8), (16, 8), (24, 8)]"
proof -
  have f: "fields_of t = variable_fields" by (rule ClinkTop_fields [OF assms])
  have 1: "\<forall>f\<in>set (fields_of t). 0 \<le> bitOffset f \<and> 0 < bitSize f \<and> bitOffset f + bitSize f \<le> 32"
    unfolding f by (rule variable_fields_widths)
  have 2: "\<forall>i j. i < j \<and> j < length (fields_of t)
              \<and> offset (fields_of t ! i) = offset (fields_of t ! j)
            \<longrightarrow> bit_range (fields_of t ! i) \<inter> bit_range (fields_of t ! j) = {}"
    unfolding f using variable_fields_disjoint by (simp add: sorted_wrt_iff_nth_less)
  have 3: "map (\<lambda>f. (bitOffset f, bitSize f)) (filter (\<lambda>f. offset f = 0x10) (fields_of t))
           = [(0, 1), (1, 1), (2, 1), (8, 8), (16, 8), (24, 8)]"
    unfolding f by (simp add: variable_fields_eval)
  from 1 2 3 show ?thesis by blast
qed

theorem fields_within_word_and_disjoint_witness:
  "\<exists>t. ClinkTop default_name default_description [Some (1::nat), None] [Some (2::nat), None] = Inr t
     \<and> length (fields_of t) = 25
     \<and> offset (fields_of t ! 4) = offset (fields_of t ! 7)
     \<and> bit_range (fields_of t ! 4) \<inter> bit_range (fields_of t ! 7) = {}
     \<and> bitOffset (fields_of t ! 9) + bitSize (fields_of t ! 9) \<le> 32"
proof -
  obtain t where
    t: "ClinkTop default_name default_description [Some (1::nat), None] [Some (2::nat), None] = Inr t"
    using ClinkTop_total [of "[Some (1::nat), None]" "[Some (2::nat), None]"] by auto
  have f: "fields_of t = variable_fields" by (rule ClinkTop_fields [OF t])
  have n: "length (fields_of t) = 25" "offset (fields_of t ! 4) = offset (fields_of t ! 7)"
    "fields_of t ! 9 \<in> set (fields_of t)"
    unfolding f by (simp_all add: variable_fields_eval)
  from fields_within_word_and_disjoint [OF t] n t show ?thesis by auto
qed

text \<open>
  C4. A built tree has exactly three frequency field arrays, \<^verbatim>\<open>ClkInFreq\<close>,
  \<^verbatim>\<open>ClinkClkFreq\<close> and \<^verbatim>\<open>ClinkClk7xFreq\<close>: the fields that carry a unit are nine,
  three per array, each 32 bits wide at bit 0 and read-only, at consecutive registers
  four bytes apart starting at 0x1C, 0x28 and 0x34, with unit \<^verbatim>\<open>Hz\<close>, a poll
  interval and the decimal display format.
\<close>

theorem frequency_arrays:
  assumes "ClinkTop nm descr serial camType = Inr t"
  shows "map (\<lambda>f. (name f, offset f, bitOffset f, bitSize f, mode f, units f, disp f, pollInterval f))
           (filter (\<lambda>f. units f \<noteq> None) (fields_of t))
         = [(''ClkInFreq[0]'', 0x1C, 0, 32, Some ''RO'', Some ''Hz'', Some ''{:d}'', Some 1),
            (''ClkInFreq[1]'', 0x20, 0, 32, Some ''RO'', Some ''Hz'', Some ''{:d}'', Some 1),
            (''ClkInFreq[2]'', 0x24, 0, 32, Some ''RO'', Some ''Hz'', Some ''{:d}'', Some 1),
            (''ClinkClkFreq[0]'', 0x28, 0, 32, Some ''RO'', Some ''Hz'', Some ''{:d}'', Some 1),
            (''ClinkClkFreq[1]'', 0x2C, 0, 32, Some ''RO'', Some ''Hz'', Some ''{:d}'', Some 1),
            (''ClinkClkFreq[2]'', 0x30, 0, 32, Some ''RO'', Some ''Hz'', Some ''{:d}'', Some 1),
            (''ClinkClk7xFreq[0]'', 0x34, 0, 32, Some ''RO'', Some ''Hz'', Some ''{:d}'', Some 1),
            (''ClinkClk7xFreq[1]'', 0x38, 0, 32, Some ''RO'', Some ''Hz'', Some ''{:d}'', Some 1),
            (''ClinkClk7xFreq[2]'', 0x3C, 0, 32, Some ''RO'', Some ''Hz'', Some ''{:d}'', Some 1)]"
  unfolding ClinkTop_fields [OF assms] by (simp add: variable_fields_eval)

theorem frequency_arrays_witness:
  "\<exists>t. ClinkTop default_name default_description [Some (1::nat), None] [Some (2::nat), None] = Inr t
     \<and> map (\<lambda>f. (name f, offset f, bitOffset f, bitSize f, mode f, units f, disp f, pollInterval f))
               (filter (\<lambda>f. units f \<noteq> None) (fields_of t))
             = [(''ClkInFreq[0]'', 0x1C, 0, 32, Some ''RO'', Some ''Hz'', Some ''{:d}'', Some 1),
                (''ClkInFreq[1]'', 0x20, 0, 32, Some ''RO'', Some ''Hz'', Some ''{:d}'', Some 1),
                (''ClkInFreq[2]'', 0x24, 0, 32, Some ''RO'', Some ''Hz'', Some ''{:d}'', Some 1),
                (''ClinkClkFreq[0]'', 0x28, 0, 32, Some ''RO'', Some ''Hz'', Some ''{:d}'', Some 1),
                (''ClinkClkFreq[1]'', 0x2C, 0, 32, Some ''RO'', Some ''Hz'', Some ''{:d}'', Some 1),
                (''ClinkClkFreq[2]'', 0x30, 0, 32, Some ''RO'', Some ''Hz'', Some ''{:d}'', Some 1),
                (''ClinkClk7xFreq[0]'', 0x34, 0, 32, Some ''RO'', Some ''Hz'', Some ''{:d}'', Some 1),
                (''ClinkClk7xFreq[1]'', 0x38, 0, 32, Some ''RO'', Some ''Hz'', Some ''{:d}'', Some 1),
                (''ClinkClk7xFreq[2]'', 0x3C, 0, 32, Some ''RO'', Some ''Hz'', Some ''{:d}'', Some 1)]"
proof -
  obtain t where
    t: "ClinkTop default_name default_description [Some (1::nat), None] [Some (2::nat), None] = Inr t"
    using ClinkTop_total [of "[Some (1::nat), None]" "[Some (2::nat), None]"] by auto
  show ?thesis
  proof (intro exI conjI)
    show "ClinkTop default_name default_description [Some (1::nat), None] [Some (2::nat), None] = Inr t"
      by (rule t)
  qed (rule frequency_arrays [OF t])
qed

text \<open>
  C7. The register at offset 0x10 of a built tree holds exactly six fields, all
  read-only variables: three 1-bit boolean link-locked fields at bits 0, 1, 2 and three
  8-bit locked counters at bits 8, 16, 24 displayed with the plain format, each with its
  own poll interval.
\<close>

theorem register_0x10_fields:
  assumes "ClinkTop nm descr serial camType = Inr t"
  shows "map (\<lambda>f. (name f, bitOffset f, bitSize f, base f, mode f, disp f, pollInterval f, func f))
           (filter (\<lambda>f. offset f = 0x10) (fields_of t))
         = [(''LinkLockedA'', 0, 1, Some pr_Bool, Some ''RO'', None, Some 1, None),
            (''LinkLockedB'', 1, 1, Some pr_Bool, Some ''RO'', None, Some 1, None),
            (''LinkLockedC'', 2, 1, Some pr_Bool, Some ''RO'', None, Some 1, None),
            (''LinkLockedCntA'', 8, 8, None, Some ''RO'', Some ''{}'', Some 1, None),
            (''LinkLockedCntB'', 16, 8, None, Some ''RO'', Some ''{}'', Some 1, None),
            (''LinkLockedCntC'', 24, 8, None, Some ''RO'', Some ''{}'', Some 1, None)]"
  unfolding ClinkTop_fields [OF assms] by (simp add: variable_fields_eval)

theorem register_0x10_fields_witness:
  "\<exists>t. ClinkTop default_name default_description [Some (1::nat), None] [Some (2::nat), None] = Inr t
     \<and> map (\<lambda>f. (name f, bitOffset f, bitSize f, base f, mode f, disp f, pollInterval f, func f))
               (filter (\<lambda>f. offset f = 0x10) (fields_of t))
             = [(''LinkLockedA'', 0, 1, Some pr_Bool, Some ''RO'', None, Some 1, None),
                (''LinkLockedB'', 1, 1, Some pr_Bool, Some ''RO'', None, Some 1, None),
                (''LinkLockedC'', 2, 1, Some pr_Bool, Some ''RO'', None, Some 1, None),
                (''LinkLockedCntA'', 8, 8, None, Some ''RO'', Some ''{}'', Some 1, None),
                (''LinkLockedCntB'', 16, 8, None, Some ''RO'', Some ''{}'', Some 1, None),
                (''LinkLockedCntC'', 24, 8, None, Some ''RO'', Some ''{}'', Some 1, None)]"
proof -
  obtain t where
    t: "ClinkTop default_name default_description [Some (1::nat), None] [Some (2::nat), None] = Inr t"
    using ClinkTop_total [of "[Some (1::nat), None]" "[Some (2::nat), None]"] by auto
  show ?thesis
  proof (intro exI conjI)
    show "ClinkTop default_name default_description [Some (1::nat), None] [Some (2::nat), None] = Inr t"
      by (rule t)
  qed (rule register_0x10_fields [OF t])
qed

text \<open>
  C10. Every field of a built tree that carries a poll interval carries the interval 1:
  the LinkLocked, LinkLockedCnt, ShiftCount and Delay fields and the nine frequency
  fields; \<^verbatim>\<open>ChanCount\<close> and the three commands carry none.
\<close>

theorem poll_intervals:
  assumes "ClinkTop nm descr serial camType = Inr t"
  shows "(\<forall>f\<in>set (fields_of t). pollInterval f = None \<or> pollInterval f = Some 1)
       \<and> map name (filter (\<lambda>f. pollInterval f = Some 1) (fields_of t))
           = [''LinkLockedA'', ''LinkLockedB'', ''LinkLockedC'',
              ''LinkLockedCntA'', ''LinkLockedCntB'', ''LinkLockedCntC'',
              ''ShiftCountA'', ''ShiftCountB'', ''ShiftCountC'',
              ''DelayA'', ''DelayB'', ''DelayC'',
              ''ClkInFreq[0]'', ''ClkInFreq[1]'', ''ClkInFreq[2]'',
              ''ClinkClkFreq[0]'', ''ClinkClkFreq[1]'', ''ClinkClkFreq[2]'',
              ''ClinkClk7xFreq[0]'', ''ClinkClk7xFreq[1]'', ''ClinkClk7xFreq[2]'']
       \<and> map name (filter (\<lambda>f. pollInterval f = None) (fields_of t))
           = [''ChanCount'', ''ResetPll'', ''ResetFsm'', ''CntRst'']
       \<and> map name (commands t) = [''ResetPll'', ''ResetFsm'', ''CntRst'']"
  unfolding ClinkTop_fields [OF assms] ClinkTop_commands [OF assms]
  by (simp add: variable_fields_eval variable_commands_eval)

theorem poll_intervals_witness:
  "\<exists>t. ClinkTop default_name default_description [Some (1::nat), None] [Some (2::nat), None] = Inr t
     \<and> map name (filter (\<lambda>f. pollInterval f = None) (fields_of t))
           = [''ChanCount'', ''ResetPll'', ''ResetFsm'', ''CntRst'']
     \<and> length (filter (\<lambda>f. pollInterval f = Some 1) (fields_of t)) = 21
     \<and> length (fields_of t) = 25"
proof -
  obtain t where
    t: "ClinkTop default_name default_description [Some (1::nat), None] [Some (2::nat), None] = Inr t"
    using ClinkTop_total [of "[Some (1::nat), None]" "[Some (2::nat), None]"] by auto
  note p = poll_intervals [OF t]
  have n: "length (fields_of t) = 25"
    unfolding ClinkTop_fields [OF t] by (simp add: variable_fields_eval)
  have "length (map name (filter (\<lambda>f. pollInterval f = Some 1) (fields_of t))) = 21"
    by (simp add: p)
  then have m: "length (filter (\<lambda>f. pollInterval f = Some 1) (fields_of t)) = 21"
    by (simp only: length_map)
  show ?thesis
  proof (intro exI conjI)
    show "ClinkTop default_name default_description [Some (1::nat), None] [Some (2::nat), None] = Inr t"
      by (rule t)
    show "map name (filter (\<lambda>f. pollInterval f = None) (fields_of t))
           = [''ChanCount'', ''ResetPll'', ''ResetFsm'', ''CntRst'']"
      by (rule p [THEN conjunct2, THEN conjunct2, THEN conjunct1])
  qed (rule m, rule n)
qed

text \<open>
  C6. A built tree has exactly three commands, \<^verbatim>\<open>ResetPll\<close>, \<^verbatim>\<open>ResetFsm\<close> and
  \<^verbatim>\<open>CntRst\<close>, all in the register at offset 0x04, each one bit wide, at the
  distinct bits 0, 1 and 2, and each a toggle: calling it writes 1 and then 0 to its bit.
\<close>

theorem command_pulses:
  assumes "ClinkTop nm descr serial camType = Inr t"
  shows "map (\<lambda>c. (name c, offset c, bitOffset c, bitSize c, func c)) (commands t)
           = [(''ResetPll'', 0x04, 0, 1, Some toggle_fn),
              (''ResetFsm'', 0x04, 1, 1, Some toggle_fn),
              (''CntRst'', 0x04, 2, 1, Some toggle_fn)]
       \<and> (\<forall>c\<in>set (commands t).
             call (RemoteCommand c :: ('s, 'c) node) st = Inr (set_field c 0 (set_field c 1 st))
           \<and> writes (set_field c 0 (set_field c 1 st))
               = writes st @ [(0x04, bitOffset c, 1, 1), (0x04, bitOffset c, 1, 0)])"
  unfolding ClinkTop_commands [OF assms]
  by (simp add: variable_commands_eval toggle_def) (simp add: set_field_def)

theorem command_pulses_witness:
  "\<exists>t. ClinkTop default_name default_description [Some (1::nat), None] [Some (2::nat), None] = Inr t
     \<and> map (\<lambda>c. (name c, offset c, bitOffset c, bitSize c, func c)) (commands t)
           = [(''ResetPll'', 0x04, 0, 1, Some toggle_fn),
              (''ResetFsm'', 0x04, 1, 1, Some toggle_fn),
              (''CntRst'', 0x04, 2, 1, Some toggle_fn)]
     \<and> cntrst \<in> set (commands t)
     \<and> writes (set_field cntrst 0 (set_field cntrst 1 \<lparr>mem = \<lambda>a. 0, writes = []\<rparr>))
           = [(0x04, 2, 1, 1), (0x04, 2, 1, 0)]"
proof -
  obtain t where
    t: "ClinkTop default_name default_description [Some (1::nat), None] [Some (2::nat), None] = Inr t"
    using ClinkTop_total [of "[Some (1::nat), None]" "[Some (2::nat), None]"] by auto
  have c: "cntrst \<in> set (commands t)"
    unfolding ClinkTop_commands [OF t] by (rule cntrst_in_commands)
  from command_pulses [OF t, of "\<lparr>mem = \<lambda>a. 0, writes = []\<rparr>"] c
  have "writes (set_field cntrst 0 (set_field cntrst 1 \<lparr>mem = \<lambda>a. 0, writes = []\<rparr>))
           = [] @ [(0x04, bitOffset cntrst, 1, 1), (0x04, bitOffset cntrst, 1, 0)]"
    by (simp del: append_Nil)
  then have "writes (set_field cntrst 0 (set_field cntrst 1 \<lparr>mem = \<lambda>a. 0, writes = []\<rparr>))
           = [(0x04, 2, 1, 1), (0x04, 2, 1, 0)]"
    by (simp add: cntrst_def)
  note w = this
  show ?thesis
  proof (intro exI conjI)
    show "ClinkTop default_name default_description [Some (1::nat), None] [Some (2::nat), None] = Inr t"
      by (rule t)
    show "map (\<lambda>c. (name c, offset c, bitOffset c, bitSize c, func c)) (commands t)
           = [(''ResetPll'', 0x04, 0, 1, Some toggle_fn),
              (''ResetFsm'', 0x04, 1, 1, Some toggle_fn),
              (''CntRst'', 0x04, 2, 1, Some toggle_fn)]"
      by (rule command_pulses [OF t, THEN conjunct1])
  qed (rule c, rule w)
qed

text \<open>
  C2. On every built device \<^verbatim>\<open>hardReset\<close>, \<^verbatim>\<open>softReset\<close> and \<^verbatim>\<open>countReset\<close>
  do the same thing: one toggle of the command \<^verbatim>\<open>CntRst\<close>, which writes 1 and then
  0 to bit 2 of offset 0x04. No other bit of any register changes, so every other field
  of the device reads the same during and after the pulse.
\<close>

theorem reset_aliases:
  assumes "ClinkTop nm descr serial camType = Inr t"
  shows "\<exists>c st1 st2.
      c \<in> set (commands t) \<and> name c = ''CntRst''
    \<and> offset c = 0x04 \<and> bitOffset c = 2 \<and> bitSize c = 1
    \<and> st1 = set_field c 1 st \<and> st2 = set_field c 0 st1
    \<and> hardReset t st = Inr st2 \<and> softReset t st = Inr st2 \<and> countReset t st = Inr st2
    \<and> writes st2 = writes st @ [(0x04, 2, 1, 1), (0x04, 2, 1, 0)]
    \<and> bit (mem st1 0x04) 2 \<and> \<not> bit (mem st2 0x04) 2
    \<and> (\<forall>a n. (a, n) \<noteq> (0x04, 2) \<longrightarrow>
          bit (mem st1 a) n = bit (mem st a) n \<and> bit (mem st2 a) n = bit (mem st a) n)
    \<and> (\<forall>f\<in>set (fields_of t). name f \<noteq> ''CntRst'' \<longrightarrow>
          get_field f st1 = get_field f st \<and> get_field f st2 = get_field f st)"
proof -
  let ?st1 = "set_field cntrst 1 st"
  let ?st2 = "set_field cntrst 0 ?st1"
  have run: "CntRst t st = Inr ?st2"
    using ClinkTop_CntRst [OF assms] by (simp add: toggle_def)
  have c: "cntrst \<in> set (commands t)"
    unfolding ClinkTop_commands [OF assms] by (rule cntrst_in_commands)
  have w: "writes ?st2 = writes st @ [(0x04, 2, 1, 1), (0x04, 2, 1, 0)]"
    using writes_toggle [of cntrst st] by (simp add: toggle_def cntrst_def)
  have b: "bit (mem ?st1 0x04) 2" "\<not> bit (mem ?st2 0x04) 2"
    by (simp_all add: bit_set_cntrst)
  have o: "\<forall>a n. (a, n) \<noteq> (0x04, 2) \<longrightarrow>
          bit (mem ?st1 a) n = bit (mem st a) n \<and> bit (mem ?st2 a) n = bit (mem st a) n"
    by (auto simp: bit_set_cntrst)
  have g: "\<forall>f\<in>set (fields_of t). name f \<noteq> ''CntRst'' \<longrightarrow>
          get_field f ?st1 = get_field f st \<and> get_field f ?st2 = get_field f st"
  proof (intro ballI impI)
    fix f assume f: "f \<in> set (fields_of t)" and nf: "name f \<noteq> ''CntRst''"
    from f have "f \<in> set variable_fields" by (simp add: ClinkTop_fields [OF assms])
    with nf other_fields_avoid_bit
    have away: "offset f \<noteq> 0x04 \<or> nat (bitOffset f) + nat (bitSize f) \<le> 2 \<or> 2 < nat (bitOffset f)"
      by blast
    have "get_field f ?st1 = get_field f st"
      by (rule get_field_unchanged) (use away in \<open>auto simp: bit_set_cntrst\<close>)
    moreover have "get_field f ?st2 = get_field f st"
      by (rule get_field_unchanged) (use away in \<open>auto simp: bit_set_cntrst\<close>)
    ultimately show "get_field f ?st1 = get_field f st \<and> get_field f ?st2 = get_field f st" ..
  qed
  have p: "name cntrst = ''CntRst''" "offset cntrst = 0x04" "bitOffset cntrst = 2" "bitSize cntrst = 1"
    by (simp_all add: cntrst_def)
  from run c w b o g p show ?thesis
    unfolding hardReset_def softReset_def countReset_def by blast
qed

theorem reset_aliases_witness:
  "\<exists>t st2. ClinkTop default_name default_description [Some (1::nat), None] [Some (2::nat), None] = Inr t
     \<and> hardReset t \<lparr>mem = \<lambda>a. 0, writes = []\<rparr> = Inr st2
     \<and> softReset t \<lparr>mem = \<lambda>a. 0, writes = []\<rparr> = Inr st2
     \<and> countReset t \<lparr>mem = \<lambda>a. 0, writes = []\<rparr> = Inr st2
     \<and> writes st2 = [(0x04, 2, 1, 1), (0x04, 2, 1, 0)]
     \<and> \<not> bit (mem st2 0x04) 2"
proof -
  obtain t where
    t: "ClinkTop default_name default_description [Some (1::nat), None] [Some (2::nat), None] = Inr t"
    using ClinkTop_total [of "[Some (1::nat), None]" "[Some (2::nat), None]"] by auto
  from reset_aliases [OF t, of "\<lparr>mem = \<lambda>a. 0, writes = []\<rparr>"]
  obtain st2 where
    "hardReset t \<lparr>mem = \<lambda>a. 0, writes = []\<rparr> = Inr st2"
    "softReset t \<lparr>mem = \<lambda>a. 0, writes = []\<rparr> = Inr st2"
    "countReset t \<lparr>mem = \<lambda>a. 0, writes = []\<rparr> = Inr st2"
    "writes st2 = writes \<lparr>mem = \<lambda>a. 0, writes = []\<rparr> @ [(0x04, 2, 1, 1), (0x04, 2, 1, 0)]"
    "\<not> bit (mem st2 0x04) 2"
    by (elim exE conjE)
  with t show ?thesis
    by (intro exI [of _ t] exI [of _ st2]) simp
qed

text \<open>
  C1. For a two-slot input, construction succeeds, and for each slot \<open>i\<close>: when
  \<open>serial[i]\<close> is present the tree has exactly one channel sub-device at offset
  \<open>0x100 + i * 0x100\<close>, built from \<open>(serial[i], camType[i])\<close>; when it is absent
  the tree has none there; no channel sub-device lies at any other offset. In
  particular \<open>serial = [A, None]\<close>, \<open>camType = [X, None]\<close> gives the slot-0 sub-device
  with \<open>(A, X)\<close> alone, and \<open>serial = [None, None]\<close> gives no channel sub-device.
\<close>

theorem channel_slots:
  assumes "length serial = 2" and "length camType = 2"
  shows "(\<exists>t. ClinkTop nm descr serial camType = Inr t
       \<and> (case serial ! 0 of
            None \<Rightarrow> channels_at 0x100 t = []
          | Some s \<Rightarrow> channels_at 0x100 t = [ClinkChannel ''Ch[0]'' 0x100 s (camType ! 0)])
       \<and> (case serial ! 1 of
            None \<Rightarrow> channels_at 0x200 t = []
          | Some s \<Rightarrow> channels_at 0x200 t = [ClinkChannel ''Ch[1]'' 0x200 s (camType ! 1)])
       \<and> (\<forall>off. off \<noteq> 0x100 \<and> off \<noteq> 0x200 \<longrightarrow> channels_at off t = []))
     \<and> (\<exists>t. ClinkTop nm descr [Some A, None] [Some X, None] = Inr t
           \<and> channels t = [ClinkChannel ''Ch[0]'' 0x100 A (Some X)])
     \<and> (\<exists>t. ClinkTop nm descr [None, None] camType' = Inr t \<and> channels t = [])"
proof -
  obtain a b where s: "serial = [a, b]"
    using length_2_eq [OF assms(1)] by blast
  obtain c d where c: "camType = [c, d]"
    using length_2_eq [OF assms(2)] by blast
  from ClinkTop_two_slots_channels [of nm descr a b c d] obtain t where
    t: "ClinkTop nm descr serial camType = Inr t" and
    ch: "channels t =
         (case a of None \<Rightarrow> [] | Some s \<Rightarrow> [ClinkChannel ''Ch[0]'' 0x100 s c])
         @ (case b of None \<Rightarrow> [] | Some s \<Rightarrow> [ClinkChannel ''Ch[1]'' 0x200 s d])"
    unfolding s c by blast
  have 1: "case serial ! 0 of
            None \<Rightarrow> channels_at 0x100 t = []
          | Some s \<Rightarrow> channels_at 0x100 t = [ClinkChannel ''Ch[0]'' 0x100 s (camType ! 0)]"
    by (simp add: channels_at_def ch s c split: option.splits)
  have 2: "case serial ! 1 of
            None \<Rightarrow> channels_at 0x200 t = []
          | Some s \<Rightarrow> channels_at 0x200 t = [ClinkChannel ''Ch[1]'' 0x200 s (camType ! 1)]"
    by (simp add: channels_at_def ch s c split: option.splits)
  have 3: "\<forall>off. off \<noteq> 0x100 \<and> off \<noteq> 0x200 \<longrightarrow> channels_at off t = []"
    by (simp add: channels_at_def ch split: option.splits)
  have 4: "\<exists>t. ClinkTop nm descr [Some A, None] [Some X, None] = Inr t
           \<and> channels t = [ClinkChannel ''Ch[0]'' 0x100 A (Some X)]"
    using ClinkTop_two_slots_channels [of nm descr "Some A" None "Some X" None] by simp
  from t 1 2 3 4 ClinkTop_None_None [of nm descr camType'] show ?thesis by blast
qed

theorem channel_slots_witness:
  "(\<exists>t. ClinkTop default_name default_description [None, Some (7::nat)] [None, Some (9::nat)] = Inr t
      \<and> channels_at 0x100 t = []
      \<and> channels_at 0x200 t = [ClinkChannel ''Ch[1]'' 0x200 7 (Some 9)])"
  using channel_slots [of "[None, Some (7::nat)]" "[None, Some (9::nat)]"
      default_name default_description 0 0 "[]"]
  by simp blast

text \<open>
  C9. Only \<open>serial\<close> decides which channel sub-devices are built: two two-slot
  inputs with the same \<open>serial\<close> give channel sub-devices at the same offsets whatever
  \<open>camType\<close> holds, and a slot whose \<open>serial\<close> is present and whose \<open>camType\<close> is
  \<open>None\<close> yields a sub-device at \<open>0x100 + i * 0x100\<close> that is handed that \<open>None\<close>.
\<close>

theorem camType_not_inspected:
  assumes "length serial = 2" and "length camType = 2" and "length camType' = 2"
  shows "\<exists>t t'. ClinkTop nm descr serial camType = Inr t
       \<and> ClinkTop nm descr serial camType' = Inr t'
       \<and> map node_offset (channels t) = map node_offset (channels t')
       \<and> (\<forall>i<2. \<forall>s. serial ! i = Some s \<and> camType ! i = None \<longrightarrow>
            channels_at (0x100 + int i * 0x100) t
              = [ClinkChannel (''Ch['' @ str_py (int i) @ '']'') (0x100 + int i * 0x100) s None])"
proof -
  obtain a b where s: "serial = [a, b]"
    using length_2_eq [OF assms(1)] by blast
  obtain c d where c: "camType = [c, d]"
    using length_2_eq [OF assms(2)] by blast
  obtain c' d' where c': "camType' = [c', d']"
    using length_2_eq [OF assms(3)] by blast
  from ClinkTop_two_slots_channels [of nm descr a b c d] obtain t where
    t: "ClinkTop nm descr serial camType = Inr t" and
    ch: "channels t =
         (case a of None \<Rightarrow> [] | Some s \<Rightarrow> [ClinkChannel ''Ch[0]'' 0x100 s c])
         @ (case b of None \<Rightarrow> [] | Some s \<Rightarrow> [ClinkChannel ''Ch[1]'' 0x200 s d])"
    unfolding s c by blast
  from ClinkTop_two_slots_channels [of nm descr a b c' d'] obtain t' where
    t': "ClinkTop nm descr serial camType' = Inr t'" and
    ch': "channels t' =
         (case a of None \<Rightarrow> [] | Some s \<Rightarrow> [ClinkChannel ''Ch[0]'' 0x100 s c'])
         @ (case b of None \<Rightarrow> [] | Some s \<Rightarrow> [ClinkChannel ''Ch[1]'' 0x200 s d'])"
    unfolding s c' by blast
  have 1: "map node_offset (channels t) = map node_offset (channels t')"
    by (simp add: ch ch' split: option.splits)
  have 2: "\<forall>i<2. \<forall>s. serial ! i = Some s \<and> camType ! i = None \<longrightarrow>
            channels_at (0x100 + int i * 0x100) t
              = [ClinkChannel (''Ch['' @ str_py (int i) @ '']'') (0x100 + int i * 0x100) s None]"
  proof (intro allI impI)
    fix i :: nat and s0
    assume i: "i < 2" and h: "serial ! i = Some s0 \<and> camType ! i = None"
    from i have "i = 0 \<or> i = 1" by auto
    then show "channels_at (0x100 + int i * 0x100) t
              = [ClinkChannel (''Ch['' @ str_py (int i) @ '']'') (0x100 + int i * 0x100) s0 None]"
      using h by (auto simp: channels_at_def ch s c str_py_digit split: option.splits)
  qed
  from t t' 1 2 show ?thesis by blast
qed

theorem camType_not_inspected_witness:
  "\<exists>t. ClinkTop default_name default_description [None, Some (7::nat)] [Some (9::nat), None] = Inr t
      \<and> channels_at 0x200 t = [ClinkChannel ''Ch[1]'' 0x200 7 None]"
proof -
  from camType_not_inspected [of "[None, Some (7::nat)]" "[Some (9::nat), None]" "[None, None]"
      default_name default_description]
  obtain t where
    t: "ClinkTop default_name default_description [None, Some (7::nat)] [Some (9::nat), None] = Inr t"
    and a: "\<forall>i<2. \<forall>s. [None, Some (7::nat)] ! i = Some s \<and> [Some (9::nat), None] ! i = None \<longrightarrow>
            channels_at (0x100 + int i * 0x100) t
              = [ClinkChannel (''Ch['' @ str_py (int i) @ '']'') (0x100 + int i * 0x100) s None]"
    by auto
  from a [rule_format, of 1 7] have "channels_at 0x200 t = [ClinkChannel ''Ch[1]'' 0x200 7 None]"
    by (simp add: str_py_digit)
  with t show ?thesis by blast
qed

text \<open>
  C8, as stated, fails: the constructor has no check of the length of \<open>serial\<close>.
  A list of three slots is not rejected; the tree is built from the first two slots
  and the third is never read.
\<close>

theorem three_slots_accepted:
  "length [Some (1::nat), None, Some 3] \<noteq> 2
   \<and> map_sum id channels
        (ClinkTop default_name default_description
           [Some (1::nat), None, Some 3] [Some (2::nat), None, Some 4])
       = Inr [ClinkChannel ''Ch[0]'' 0x100 1 (Some 2)]"
  by (simp add: ClinkTop_def range_py_2 getitem_def str_py_digit channels_def nodes_plls_loop
        nodes_add nodes_variables variable_nodes_channels pll_nodes_eq Device_def)

text \<open>
  C8, amended. A \<open>serial\<close> list with fewer than two elements makes construction
  raise \<^verbatim>\<open>IndexError\<close>; a two-slot input (the defaults included) raises no error; lists
  with more than two elements are accepted, and the constructor builds what it builds
  from their first two elements.
\<close>

theorem construction_errors:
  "(length serial < 2 \<longrightarrow> ClinkTop nm descr serial camType = Inl IndexError)
 \<and> (length serial = 2 \<and> length camType = 2 \<longrightarrow> (\<exists>t. ClinkTop nm descr serial camType = Inr t))
 \<and> (2 \<le> length serial \<and> 2 \<le> length camType \<longrightarrow>
       ClinkTop nm descr serial camType = ClinkTop nm descr (take 2 serial) (take 2 camType)
     \<and> (\<exists>t. ClinkTop nm descr serial camType = Inr t))
 \<and> (\<exists>t. ClinkTop nm descr default_serial default_camType = Inr t)"
proof (intro conjI impI)
  assume "length serial < 2"
  then show "ClinkTop nm descr serial camType = Inl IndexError"
    by (simp add: ClinkTop_def range_py_2 channels_loop_short del: channels_loop.simps)
next
  assume "length serial = 2 \<and> length camType = 2"
  then show "\<exists>t. ClinkTop nm descr serial camType = Inr t"
    by (simp add: ClinkTop_total)
next
  assume a: "2 \<le> length serial \<and> 2 \<le> length camType"
  then show e: "ClinkTop nm descr serial camType = ClinkTop nm descr (take 2 serial) (take 2 camType)"
    by (simp add: ClinkTop_def range_py_2 channels_loop_take_2 del: channels_loop.simps)
  from a have "length (take 2 serial) = 2" "length (take 2 camType) = 2" by simp_all
  then have "\<exists>t. ClinkTop nm descr (take 2 serial) (take 2 camType) = Inr t"
    by (rule ClinkTop_total)
  with e show "\<exists>t. ClinkTop nm descr serial camType = Inr t" by simp
next
  show "\<exists>t. ClinkTop nm descr default_serial default_camType = Inr t"
    by (simp add: ClinkTop_total default_serial_def default_camType_def)
qed

theorem construction_errors_witness:
  "ClinkTop default_name default_description [Some (1::nat)] [Some (2::nat), None] = Inl IndexError
 \<and> (\<exists>t. ClinkTop default_name default_description [Some (1::nat), None] [Some (2::nat), None] = Inr t)
 \<and> ClinkTop default_name default_description [Some (1::nat), None, Some 3] [Some (2::nat), None, Some 4]
     = ClinkTop default_name default_description [Some 1, None] [Some 2, None]"
proof (intro conjI)
  show "ClinkTop default_name default_description [Some (1::nat)] [Some (2::nat), None]
          = Inl IndexError"
    by (rule construction_errors [THEN conjunct1, rule_format]) simp
  show "\<exists>t. ClinkTop default_name default_description [Some (1::nat), None] [Some (2::nat), None]
          = Inr t"
    by (rule construction_errors [THEN conjunct2, THEN conjunct1, rule_format]) simp
  have "ClinkTop default_name default_description
          [Some (1::nat), None, Some 3] [Some (2::nat), None, Some 4]
        = ClinkTop default_name default_description
            (take 2 [Some (1::nat), None, Some 3]) (take 2 [Some (2::nat), None, Some 4])"
    by (rule construction_errors
          [THEN conjunct2, THEN conjunct2, THEN conjunct1, rule_format, THEN conjunct1]) simp
  then show "ClinkTop default_name default_description
          [Some (1::nat), None, Some 3] [Some (2::nat), None, Some 4]
        = ClinkTop default_name default_description [Some 1, None] [Some 2, None]"
    by simp
qed

end
